theory Spec2Isabelle
  imports Main "HOL-Library.Word" "HOL-Library.Sublist"
begin

section \<open>Python values, library calls and the effect model\<close>

text \<open>
  The notebook \<^verbatim>\<open>03_Single_Multi_Unit_Activity_Analysis.ipynb\<close> defines seven
  functions and runs them once each. Every function calls into Neo, SpikeInterface,
  scikit-learn, NumPy or Plotly. Those libraries are not part of the repository: they
  are a parameter of the model, and every call into them is recorded.

  A Python value is one of the built-in values the notebook writes down or an opaque
  handle to an object owned by a library. A float is its IEEE-754 binary64 bit pattern,
  so that no rounding is involved: the notebook never computes with a float, it only
  passes floats on and tests them for truth.
\<close>

datatype pyval =
    PNone
  | PBool bool
  | PInt int
  | PFloat "64 word"
  | PStr string
  | PTuple "pyval list"
  | PList "pyval list"
  | PDict "(pyval \<times> pyval) list"
  | PSlice pyval pyval pyval
  | PObj nat

text \<open>
  An exception is its class name and its message. \<open>raise ValueError(msg)\<close> of the
  notebook is \<open>ValueError msg\<close>; \<open>TypeError\<close> is what the interpreter itself
  raises when a call's keyword arguments cannot be assembled (its wording differs between
  CPython versions, so only the class is meaningful).
\<close>

datatype exn = PyExn string string

abbreviation ValueError :: "string \<Rightarrow> exn" where
  "ValueError msg \<equiv> PyExn ''ValueError'' msg"

abbreviation TypeError :: "string \<Rightarrow> exn" where
  "TypeError msg \<equiv> PyExn ''TypeError'' msg"

text \<open>
  A call into a library: \<open>Fn name args kwargs\<close> is \<open>name(*args, **kwargs)\<close> for a
  name the notebook imports (a function or a class), \<open>Method obj name args kwargs\<close> is
  \<open>obj.name(*args, **kwargs)\<close>, \<open>GetAttr obj name\<close> is \<open>obj.name\<close>,
  \<open>GetItem obj key\<close> is \<open>obj[key]\<close>, and \<open>Truth obj\<close> is the truth test of a
  library object, which the interpreter hands to the object (\<open>__bool__\<close>, or
  \<open>__len__\<close>). A call event stands for the lookup of the callee and its invocation
  together.
\<close>

datatype call =
    Fn string "pyval list" "(string \<times> pyval) list"
  | Method pyval string "pyval list" "(string \<times> pyval) list"
  | GetAttr pyval string
  | GetItem pyval pyval
  | Truth pyval

text \<open>
  The libraries: what a call returns or raises may depend on every call made before it
  (files written, objects mutated), so a library maps the history of calls and the next
  call to a result. A computation of the notebook takes the library and the history so
  far and gives its result, a value or the exception that ended it, with the history
  extended by the calls it made; \<open>run_py m lib h\<close> runs the computation \<open>m\<close>.
\<close>

type_synonym history = "call list"
type_synonym library = "history \<Rightarrow> call \<Rightarrow> exn + pyval"

datatype 'a py = Py (run_py: "library \<Rightarrow> history \<Rightarrow> (exn + 'a) \<times> history")

definition py_return :: "'a \<Rightarrow> 'a py" where
  "py_return x = Py (\<lambda>lib h. (Inr x, h))"

definition py_raise :: "exn \<Rightarrow> 'a py" where
  "py_raise e = Py (\<lambda>lib h. (Inl e, h))"

definition py_bind :: "'a py \<Rightarrow> ('a \<Rightarrow> 'b py) \<Rightarrow> 'b py" where
  "py_bind m f = Py (\<lambda>lib h. case run_py m lib h of
                                  (Inl e, h') \<Rightarrow> (Inl e, h')
                                | (Inr x, h') \<Rightarrow> run_py (f x) lib h')"

definition ext :: "call \<Rightarrow> pyval py" where
  "ext c = Py (\<lambda>lib h. (lib h c, h @ [c]))"

subsection \<open>The interpreter's part: truth values, dictionary lookup, keyword arguments\<close>

text \<open>
  Truth value testing, as \<open>if x:\<close> and \<open>a if x else b\<close> do it. For a built-in value
  the interpreter decides by itself: \<open>None\<close>, \<open>False\<close>, zero (for a float: both signed
  zeros) and empty containers are false, every other built-in value is true; this is
  \<open>truthy\<close>, which is \<open>None\<close> for a library object. For a library object the
  interpreter asks the object: \<open>truth_test\<close> then makes the call \<open>Truth obj\<close>, and the
  object may answer true, answer false, or raise (a NumPy array of several elements raises
  \<open>ValueError\<close>). An answer that is not a \<open>bool\<close> is the interpreter's \<open>TypeError\<close>.
\<close>

fun truthy :: "pyval \<Rightarrow> bool option" where
  "truthy PNone = Some False"
| "truthy (PBool b) = Some b"
| "truthy (PInt i) = Some (i \<noteq> 0)"
| "truthy (PFloat w) = Some (w \<noteq> 0 \<and> w \<noteq> 0x8000000000000000)"
| "truthy (PStr s) = Some (s \<noteq> [])"
| "truthy (PTuple vs) = Some (vs \<noteq> [])"
| "truthy (PList vs) = Some (vs \<noteq> [])"
| "truthy (PDict kvs) = Some (kvs \<noteq> [])"
| "truthy (PSlice a b c) = Some True"
| "truthy (PObj n) = None"

definition truth_test :: "pyval \<Rightarrow> bool py" where
  "truth_test v =
     (case truthy v of
        Some b \<Rightarrow> py_return b
      | None \<Rightarrow>
          py_bind (ext (Truth v)) (\<lambda>answer.
          case answer of
            PBool b \<Rightarrow> py_return b
          | _ \<Rightarrow> py_raise (TypeError ''__bool__ should return bool'')))"

text \<open>\<open>kwargs.get(key, default)\<close> on the keyword dictionary of a call.\<close>

definition kwargs_get :: "(string \<times> pyval) list \<Rightarrow> string \<Rightarrow> pyval \<Rightarrow> pyval" where
  "kwargs_get kwargs key fallback = (case map_of kwargs key of None \<Rightarrow> fallback | Some v \<Rightarrow> v)"

text \<open>
  \<open>f(..., k=v, **d)\<close>: the interpreter merges \<open>d\<close> into the explicit keywords before
  the call. \<open>d\<close> must be a mapping (a library handle is taken not to be one), no key of
  \<open>d\<close> may repeat an explicit keyword, and every key must be a string; otherwise the
  interpreter raises \<open>TypeError\<close> and the callee is never invoked.
\<close>

fun keyword_items :: "(pyval \<times> pyval) list \<Rightarrow> (string \<times> pyval) list option" where
  "keyword_items [] = Some []"
| "keyword_items ((PStr k, v) # kvs) = map_option (\<lambda>r. (k, v) # r) (keyword_items kvs)"
| "keyword_items ((_, v) # kvs) = None"

definition merge_keywords ::
  "(string \<times> pyval) list \<Rightarrow> pyval \<Rightarrow> (string \<times> pyval) list py" where
  "merge_keywords explicit d =
     (case d of
        PDict kvs \<Rightarrow>
          (case find (\<lambda>(k, v). PStr k \<in> fst ` set kvs) explicit of
             Some (k, v) \<Rightarrow>
               py_raise (TypeError (''got multiple values for keyword argument '' @ k))
           | None \<Rightarrow>
               (case keyword_items kvs of
                  None \<Rightarrow> py_raise (TypeError ''keywords must be strings'')
                | Some kws \<Rightarrow> py_return (explicit @ kws)))
      | _ \<Rightarrow> py_raise (TypeError ''argument after ** must be a mapping''))"

section \<open>The functions of the notebook\<close>

text \<open>
  Parameters that a function compares with string literals (\<open>io_type\<close>, \<open>method\<close>)
  are strings, as their docstrings say; every other parameter is passed on as it is and
  may be any value.
\<close>

definition load_data :: "pyval \<Rightarrow> string \<Rightarrow> pyval py" where
  "load_data file_path io_type =
     py_bind (ext (Fn ''NeuralynxIO'' [] [(''dirname'', file_path)])) (\<lambda>neuralynx.
     py_bind (ext (Fn ''BlackrockIO'' [] [(''filename'', file_path)])) (\<lambda>blackrock.
     py_bind (ext (Fn ''NixIO'' [] [(''filename'', file_path)])) (\<lambda>nix.
     (case map_of [(''NeuralynxIO'', neuralynx),
                   (''BlackrockIO'', blackrock),
                   (''NixIO'', nix)] io_type of
        None \<Rightarrow> py_raise (ValueError (''Unsupported IO type: '' @ io_type))
      | Some reader \<Rightarrow>
          py_bind (ext (Method reader ''read_block'' [] [])) (\<lambda>block.
          py_bind (ext (GetAttr block ''segments'')) (\<lambda>segments.
          py_bind (ext (GetItem segments (PInt 0))) (\<lambda>segment.
          py_bind (ext (GetAttr segment ''analogsignals'')) (\<lambda>analogsignals.
          py_bind (ext (GetItem analogsignals (PInt 0))) (\<lambda>analog_signal.
          ext (Fn ''se.NeoRecordingExtractor'' [analog_signal] []))))))))))"

definition preprocess_data :: "pyval \<Rightarrow> pyval \<Rightarrow> pyval \<Rightarrow> pyval \<Rightarrow> pyval \<Rightarrow> pyval py" where
  "preprocess_data recording freq_min freq_max notch_freq common_ref_type =
     py_bind (ext (Fn ''sp.bandpass_filter'' [recording]
                      [(''freq_min'', freq_min), (''freq_max'', freq_max)])) (\<lambda>recording_bp.
     py_bind (truth_test notch_freq) (\<lambda>specified.
     py_bind (if specified
              then ext (Fn ''sp.notch_filter'' [recording_bp] [(''freq'', notch_freq)])
              else py_return recording_bp) (\<lambda>recording_notch.
     ext (Fn ''sp.common_reference'' [recording_notch] [(''reference'', common_ref_type)]))))"

definition sort_spikes :: "pyval \<Rightarrow> pyval \<Rightarrow> pyval \<Rightarrow> pyval py" where
  "sort_spikes recording sorter_name custom_params =
     py_bind (truth_test custom_params) (\<lambda>supplied.
     py_bind (if supplied
              then py_return custom_params
              else ext (Fn ''ss.get_default_params'' [sorter_name] [])) (\<lambda>sorter_params.
     py_bind (merge_keywords [(''output_folder'', PStr ''sorting_output'')] sorter_params)
       (\<lambda>keywords.
     ext (Fn ''ss.run_sorter'' [sorter_name, recording] keywords))))"

text \<open>The floats \<open>1.5\<close> and \<open>2.5\<close> are \<open>0x3FF8000000000000\<close> and \<open>0x4004000000000000\<close>.\<close>

definition postprocess_sorting :: "pyval \<Rightarrow> pyval \<Rightarrow> pyval py" where
  "postprocess_sorting sorting recording =
     py_bind (ext (Fn ''spost.WaveformExtractor.create'' [recording, sorting]
                      [(''folder'', PStr ''waveforms''),
                       (''remove_existing_folder'', PBool True)])) (\<lambda>waveform_extractor.
     py_bind (ext (Method waveform_extractor ''set_params'' []
                      [(''ms_before'', PFloat 0x3FF8000000000000),
                       (''ms_after'', PFloat 0x4004000000000000)])) (\<lambda>_.
     py_bind (ext (Method waveform_extractor ''run'' [] [])) (\<lambda>_.
     py_return waveform_extractor)))"

definition extract_features :: "pyval \<Rightarrow> string \<Rightarrow> pyval \<Rightarrow> pyval py" where
  "extract_features waveform_extractor method n_components =
     py_bind (ext (Method waveform_extractor ''get_waveforms'' [] [])) (\<lambda>waveforms.
     if method = ''pca'' then
       py_bind (ext (Fn ''PCA'' [] [(''n_components'', n_components)])) (\<lambda>pca.
       py_bind (ext (GetAttr waveforms ''shape'')) (\<lambda>shape.
       py_bind (ext (GetItem shape (PInt 0))) (\<lambda>n_spikes.
       py_bind (ext (Method waveforms ''reshape'' [n_spikes, PInt (- 1)] [])) (\<lambda>flat.
       ext (Method pca ''fit_transform'' [flat] [])))))
     else
       py_bind (ext (Fn ''np.abs'' [waveforms] [])) (\<lambda>magnitudes.
       py_bind (ext (Fn ''np.mean'' [magnitudes]
                        [(''axis'', PTuple [PInt 1, PInt 2])])) (\<lambda>spike_width.
       py_bind (ext (Fn ''np.std'' [waveforms]
                        [(''axis'', PTuple [PInt 1, PInt 2])])) (\<lambda>spike_amplitude.
       ext (Fn ''np.column_stack'' [PTuple [spike_width, spike_amplitude]] [])))))"

text \<open>The float \<open>0.5\<close> is \<open>0x3FE0000000000000\<close>.\<close>

definition cluster_spikes :: "pyval \<Rightarrow> string \<Rightarrow> (string \<times> pyval) list \<Rightarrow> pyval py" where
  "cluster_spikes features method kwargs =
     (if method = ''gmm'' then
        py_bind (ext (Fn ''GaussianMixture'' []
                         [(''n_components'', kwargs_get kwargs ''n_components'' (PInt 3))]))
          (\<lambda>gmm. ext (Method gmm ''fit_predict'' [features] []))
      else if method = ''dbscan'' then
        py_bind (ext (Fn ''DBSCAN'' []
                         [(''eps'', kwargs_get kwargs ''eps'' (PFloat 0x3FE0000000000000)),
                          (''min_samples'', kwargs_get kwargs ''min_samples'' (PInt 5))]))
          (\<lambda>db. ext (Method db ''fit_predict'' [features] []))
      else if method = ''agglomerative'' then
        py_bind (ext (Fn ''AgglomerativeClustering'' []
                         [(''n_clusters'', kwargs_get kwargs ''n_clusters'' (PInt 3))]))
          (\<lambda>agc. ext (Method agc ''fit_predict'' [features] []))
      else py_raise (ValueError (''Unsupported clustering method: '' @ method)))"

definition plot_cluster_features :: "pyval \<Rightarrow> pyval \<Rightarrow> pyval py" where
  "plot_cluster_features features labels =
     py_bind (ext (GetItem features (PTuple [PSlice PNone PNone PNone, PInt 0]))) (\<lambda>x.
     py_bind (ext (GetItem features (PTuple [PSlice PNone PNone PNone, PInt 1]))) (\<lambda>y.
     py_bind (ext (Fn ''px.scatter'' [] [(''x'', x), (''y'', y), (''color'', labels)])) (\<lambda>fig.
     py_bind (ext (Method fig ''update_layout'' []
                      [(''title'', PStr ''Spike Clustering''),
                       (''xaxis_title'', PStr ''Feature 1''),
                       (''yaxis_title'', PStr ''Feature 2'')])) (\<lambda>_.
     py_bind (ext (Method fig ''show'' [] [])) (\<lambda>_.
     py_return PNone)))))"

subsection \<open>The cells' example usage, run top to bottom\<close>

text \<open>
  The statements after each definition, in the order of the cells. The module's global
  names after the last statement are the result; an exception ends the run.
\<close>

record namespace =
  g_example_file_path :: pyval
  g_recording :: pyval
  g_recording_preprocessed :: pyval
  g_sorting :: pyval
  g_waveform_extractor :: pyval
  g_features :: pyval
  g_labels :: pyval

definition notebook :: "namespace py" where
  "notebook =
     (let example_file_path = PStr ''data/sample_data'' in
      py_bind (load_data example_file_path ''NeuralynxIO'') (\<lambda>recording.
      py_bind (preprocess_data recording (PInt 300) (PInt 3000) PNone (PStr ''median''))
        (\<lambda>recording_preprocessed.
      py_bind (sort_spikes recording_preprocessed (PStr ''kilosort2'') PNone) (\<lambda>sorting.
      py_bind (postprocess_sorting sorting recording_preprocessed) (\<lambda>waveform_extractor.
      py_bind (extract_features waveform_extractor ''pca'' (PInt 3)) (\<lambda>features.
      py_bind (cluster_spikes features ''gmm'' []) (\<lambda>labels.
      py_bind (ext (Fn ''print'' [PStr ''Cluster Labels:'', labels] [])) (\<lambda>_.
      py_bind (plot_cluster_features features labels) (\<lambda>_.
      py_return \<lparr>g_example_file_path = example_file_path, g_recording = recording,
                 g_recording_preprocessed = recording_preprocessed, g_sorting = sorting,
                 g_waveform_extractor = waveform_extractor, g_features = features,
                 g_labels = labels\<rparr>)))))))))"

subsection \<open>Three libraries to run the notebook against\<close>

text \<open>
  \<open>lib_fresh\<close> never raises: a call answers with a new handle, numbered by its position
  in the history, \<open>ss.get_default_params\<close> with a one-entry dictionary, and a truth
  test with \<open>True\<close>. \<open>lib_raising name e\<close> is the same library, except that every
  \<open>Fn\<close> call of the given name raises \<open>e\<close>. \<open>lib_arrays\<close> is the same library,
  except that its objects refuse the truth test, as a NumPy array of several elements
  does.
\<close>

definition lib_fresh :: library where
  "lib_fresh h c =
     (case c of
        Fn name args kwargs \<Rightarrow>
          (if name = ''ss.get_default_params''
           then Inr (PDict [(PStr ''detect_threshold'', PInt 6)])
           else Inr (PObj (length h)))
      | Truth obj \<Rightarrow> Inr (PBool True)
      | _ \<Rightarrow> Inr (PObj (length h)))"


definition lib_raising :: "string \<Rightarrow> exn \<Rightarrow> library" where
  "lib_raising name e h c =
     (case c of
        Fn name' args kwargs \<Rightarrow> (if name' = name then Inl e else lib_fresh h c)
      | _ \<Rightarrow> lib_fresh h c)"

section \<open>Properties of computations\<close>




text \<open>
  \<open>answered_last lib h (r, h')\<close>: if the run returned a value, it made at least one
  call and the value is what the library answered to the last call. A computation
  \<open>returns_library_result\<close> when all its runs are like that.
\<close>

definition answered_last :: "library \<Rightarrow> history \<Rightarrow> (exn + pyval) \<times> history \<Rightarrow> bool" where
  "answered_last lib h outcome =
     (case outcome of
        (Inr v, h') \<Rightarrow> length h < length h' \<and> lib (butlast h') (last h') = Inr v
      | (Inl e, h') \<Rightarrow> True)"

definition returns_library_result :: "pyval py \<Rightarrow> bool" where
  "returns_library_result m = (\<forall>lib h. answered_last lib h (run_py m lib h))"

text \<open>
  \<open>mean_and_std_features lib h waveform_extractor (r, h')\<close>: the outcome of the feature
  extraction that does not use PCA. If it raised, the library raised at the last call.
  If it returned, exactly five calls were made: the waveforms were fetched, their
  absolute values taken, the mean of those over axes 1 and 2 and the standard deviation of
  the waveforms over axes 1 and 2 computed, the two stacked as columns in this order, and
  the stacked matrix is the value returned.
\<close>

definition mean_and_std_features ::
  "library \<Rightarrow> history \<Rightarrow> pyval \<Rightarrow> (exn + pyval) \<times> history \<Rightarrow> bool" where
  "mean_and_std_features lib h waveform_extractor outcome =
     (case outcome of
        (Inl e, h') \<Rightarrow> length h < length h' \<and> lib (butlast h') (last h') = Inl e
      | (Inr v, h') \<Rightarrow>
          (\<exists>waveforms magnitudes spike_width spike_amplitude.
             h' = h @ [Method waveform_extractor ''get_waveforms'' [] [],
                       Fn ''np.abs'' [waveforms] [],
                       Fn ''np.mean'' [magnitudes] [(''axis'', PTuple [PInt 1, PInt 2])],
                       Fn ''np.std'' [waveforms] [(''axis'', PTuple [PInt 1, PInt 2])],
                       Fn ''np.column_stack'' [PTuple [spike_width, spike_amplitude]] []]
             \<and> lib h (h' ! length h) = Inr waveforms
             \<and> lib (take (length h + 1) h') (h' ! (length h + 1)) = Inr magnitudes
             \<and> lib (take (length h + 2) h') (h' ! (length h + 2)) = Inr spike_width
             \<and> lib (take (length h + 3) h') (h' ! (length h + 3)) = Inr spike_amplitude
             \<and> lib (take (length h + 4) h') (h' ! (length h + 4)) = Inr v))"

text \<open>
  \<open>answers lib h cs\<close>: what the library answered to the calls \<open>cs\<close>, made one after
  the other from history \<open>h\<close>.
\<close>

fun answers :: "library \<Rightarrow> history \<Rightarrow> call list \<Rightarrow> (exn + pyval) list" where
  "answers lib h [] = []"
| "answers lib h (c # cs) = lib h c # answers lib (h @ [c]) cs"

text \<open>
  The statements of \<open>load_data\<close> after the reader is chosen, as one computation; it is
  used to state what \<open>load_data\<close> does once the selector is accepted.
\<close>

definition read_recording :: "pyval \<Rightarrow> pyval py" where
  "read_recording reader =
     py_bind (ext (Method reader ''read_block'' [] [])) (\<lambda>block.
     py_bind (ext (GetAttr block ''segments'')) (\<lambda>segments.
     py_bind (ext (GetItem segments (PInt 0))) (\<lambda>segment.
     py_bind (ext (GetAttr segment ''analogsignals'')) (\<lambda>analogsignals.
     py_bind (ext (GetItem analogsignals (PInt 0))) (\<lambda>analog_signal.
     ext (Fn ''se.NeoRecordingExtractor'' [analog_signal] []))))))"

text \<open>
  The chain as the specification words it, for comparison with \<open>notebook\<close>:
  load, preprocess, sort, extract-features, cluster, plot, each stage handing its return
  value to the next one, with the arguments the notebook uses. \<open>plot_cluster_features\<close>
  has two parameters, so it is given the features along with the labels.
\<close>

definition spec_pipeline :: "pyval py" where
  "spec_pipeline =
     py_bind (load_data (PStr ''data/sample_data'') ''NeuralynxIO'') (\<lambda>loaded.
     py_bind (preprocess_data loaded (PInt 300) (PInt 3000) PNone (PStr ''median''))
       (\<lambda>preprocessed.
     py_bind (sort_spikes preprocessed (PStr ''kilosort2'') PNone) (\<lambda>sorted.
     py_bind (extract_features sorted ''pca'' (PInt 3)) (\<lambda>extracted.
     py_bind (cluster_spikes extracted ''gmm'' []) (\<lambda>clustered.
     plot_cluster_features extracted clustered)))))"

text \<open>
  \<open>seven_stage_run lib h ns h'\<close>: from history \<open>h\<close> the seven functions ran one after
  the other, each returned, the values they returned are the globals \<open>ns\<close>, each value
  was handed on as it was returned, and the run ended at history \<open>h'\<close>.
\<close>

definition seven_stage_run :: "library \<Rightarrow> history \<Rightarrow> namespace \<Rightarrow> history \<Rightarrow> bool" where
  "seven_stage_run lib h ns h' =
     (\<exists>h1 h2 h3 h4 h5 h6 printed.
        g_example_file_path ns = PStr ''data/sample_data''
      \<and> run_py (load_data (g_example_file_path ns) ''NeuralynxIO'') lib h =
          (Inr (g_recording ns), h1)
      \<and> run_py (preprocess_data (g_recording ns) (PInt 300) (PInt 3000) PNone
                  (PStr ''median'')) lib h1 =
          (Inr (g_recording_preprocessed ns), h2)
      \<and> run_py (sort_spikes (g_recording_preprocessed ns) (PStr ''kilosort2'') PNone) lib h2 =
          (Inr (g_sorting ns), h3)
      \<and> run_py (postprocess_sorting (g_sorting ns) (g_recording_preprocessed ns)) lib h3 =
          (Inr (g_waveform_extractor ns), h4)
      \<and> run_py (extract_features (g_waveform_extractor ns) ''pca'' (PInt 3)) lib h4 =
          (Inr (g_features ns), h5)
      \<and> run_py (cluster_spikes (g_features ns) ''gmm'' []) lib h5 =
          (Inr (g_labels ns), h6)
      \<and> lib h6 (Fn ''print'' [PStr ''Cluster Labels:'', g_labels ns] []) = Inr printed
      \<and> run_py (plot_cluster_features (g_features ns) (g_labels ns)) lib
            (h6 @ [Fn ''print'' [PStr ''Cluster Labels:'', g_labels ns] []]) =
          (Inr PNone, h'))"

text \<open>The run of the notebook against \<open>lib_fresh\<close>: its globals and its thirty calls.\<close>

definition fresh_namespace :: namespace where
  "fresh_namespace =
     \<lparr>g_example_file_path = PStr ''data/sample_data'', g_recording = PObj 8,
      g_recording_preprocessed = PObj 10, g_sorting = PObj 12,
      g_waveform_extractor = PObj 13, g_features = PObj 21, g_labels = PObj 23\<rparr>"

definition fresh_history :: history where
  "fresh_history =
     [Fn ''NeuralynxIO'' [] [(''dirname'', PStr ''data/sample_data'')],
      Fn ''BlackrockIO'' [] [(''filename'', PStr ''data/sample_data'')],
      Fn ''NixIO'' [] [(''filename'', PStr ''data/sample_data'')],
      Method (PObj 0) ''read_block'' [] [],
      GetAttr (PObj 3) ''segments'',
      GetItem (PObj 4) (PInt 0),
      GetAttr (PObj 5) ''analogsignals'',
      GetItem (PObj 6) (PInt 0),
      Fn ''se.NeoRecordingExtractor'' [PObj 7] [],
      Fn ''sp.bandpass_filter'' [PObj 8] [(''freq_min'', PInt 300), (''freq_max'', PInt 3000)],
      Fn ''sp.common_reference'' [PObj 9] [(''reference'', PStr ''median'')],
      Fn ''ss.get_default_params'' [PStr ''kilosort2''] [],
      Fn ''ss.run_sorter'' [PStr ''kilosort2'', PObj 10]
        [(''output_folder'', PStr ''sorting_output''), (''detect_threshold'', PInt 6)],
      Fn ''spost.WaveformExtractor.create'' [PObj 10, PObj 12]
        [(''folder'', PStr ''waveforms''), (''remove_existing_folder'', PBool True)],
      Method (PObj 13) ''set_params'' []
        [(''ms_before'', PFloat 0x3FF8000000000000), (''ms_after'', PFloat 0x4004000000000000)],
      Method (PObj 13) ''run'' [] [],
      Method (PObj 13) ''get_waveforms'' [] [],
      Fn ''PCA'' [] [(''n_components'', PInt 3)],
      GetAttr (PObj 16) ''shape'',
      GetItem (PObj 18) (PInt 0),
      Method (PObj 16) ''reshape'' [PObj 19, PInt (- 1)] [],
      Method (PObj 17) ''fit_transform'' [PObj 20] [],
      Fn ''GaussianMixture'' [] [(''n_components'', PInt 3)],
      Method (PObj 22) ''fit_predict'' [PObj 21] [],
      Fn ''print'' [PStr ''Cluster Labels:'', PObj 23] [],
      GetItem (PObj 21) (PTuple [PSlice PNone PNone PNone, PInt 0]),
      GetItem (PObj 21) (PTuple [PSlice PNone PNone PNone, PInt 1]),
      Fn ''px.scatter'' [] [(''x'', PObj 25), (''y'', PObj 26), (''color'', PObj 23)],
      Method (PObj 27) ''update_layout'' []
        [(''title'', PStr ''Spike Clustering''), (''xaxis_title'', PStr ''Feature 1''),
         (''yaxis_title'', PStr ''Feature 2'')],
      Method (PObj 27) ''show'' [] []]"

text \<open>The calls of \<open>spec_pipeline\<close> against \<open>lib_fresh\<close>.\<close>

definition spec_fresh_history :: history where
  "spec_fresh_history =
     [Fn ''NeuralynxIO'' [] [(''dirname'', PStr ''data/sample_data'')],
      Fn ''BlackrockIO'' [] [(''filename'', PStr ''data/sample_data'')],
      Fn ''NixIO'' [] [(''filename'', PStr ''data/sample_data'')],
      Method (PObj 0) ''read_block'' [] [],
      GetAttr (PObj 3) ''segments'',
      GetItem (PObj 4) (PInt 0),
      GetAttr (PObj 5) ''analogsignals'',
      GetItem (PObj 6) (PInt 0),
      Fn ''se.NeoRecordingExtractor'' [PObj 7] [],
      Fn ''sp.bandpass_filter'' [PObj 8] [(''freq_min'', PInt 300), (''freq_max'', PInt 3000)],
      Fn ''sp.common_reference'' [PObj 9] [(''reference'', PStr ''median'')],
      Fn ''ss.get_default_params'' [PStr ''kilosort2''] [],
      Fn ''ss.run_sorter'' [PStr ''kilosort2'', PObj 10]
        [(''output_folder'', PStr ''sorting_output''), (''detect_threshold'', PInt 6)],
      Method (PObj 12) ''get_waveforms'' [] [],
      Fn ''PCA'' [] [(''n_components'', PInt 3)],
      GetAttr (PObj 13) ''shape'',
      GetItem (PObj 15) (PInt 0),
      Method (PObj 13) ''reshape'' [PObj 16, PInt (- 1)] [],
      Method (PObj 14) ''fit_transform'' [PObj 17] [],
      Fn ''GaussianMixture'' [] [(''n_components'', PInt 3)],
      Method (PObj 19) ''fit_predict'' [PObj 18] [],
      GetItem (PObj 18) (PTuple [PSlice PNone PNone PNone, PInt 0]),
      GetItem (PObj 18) (PTuple [PSlice PNone PNone PNone, PInt 1]),
      Fn ''px.scatter'' [] [(''x'', PObj 21), (''y'', PObj 22), (''color'', PObj 20)],
      Method (PObj 23) ''update_layout'' []
        [(''title'', PStr ''Spike Clustering''), (''xaxis_title'', PStr ''Feature 1''),
         (''yaxis_title'', PStr ''Feature 2'')],
      Method (PObj 23) ''show'' [] []]"

section \<open>Basic facts about the effect model\<close>

lemma run_return: "run_py (py_return x) lib h = (Inr x, h)"
  by (simp add: py_return_def)

lemma run_raise: "run_py (py_raise e) lib h = (Inl e, h)"
  by (simp add: py_raise_def)

lemma run_ext: "run_py (ext c) lib h = (lib h c, h @ [c])"
  by (simp add: ext_def)

lemma run_bind:
  "run_py (py_bind m f) lib h =
     (case run_py m lib h of (Inl e, h') \<Rightarrow> (Inl e, h') | (Inr x, h') \<Rightarrow> run_py (f x) lib h')"
  by (simp add: py_bind_def)

lemma run_bind_ext:
  "run_py (py_bind (ext c) f) lib h =
     (case lib h c of Inl e \<Rightarrow> (Inl e, h @ [c]) | Inr x \<Rightarrow> run_py (f x) lib (h @ [c]))"
  by (simp add: run_bind run_ext split: sum.splits)

lemma py_bind_return: "py_bind (py_return x) f = f x"
  by (simp add: py_bind_def py_return_def)

lemma py_bind_raise: "py_bind (py_raise e) f = py_raise e"
  by (simp add: py_bind_def py_raise_def)

lemma py_bind_assoc: "py_bind (py_bind m f) g = py_bind m (\<lambda>x. py_bind (f x) g)"
  by (auto simp: py_bind_def fun_eq_iff split: prod.splits sum.splits)

lemmas run_simps =
  py_bind_assoc py_bind_return py_bind_raise run_bind_ext run_ext run_return run_raise

lemmas function_defs =
  load_data_def preprocess_data_def sort_spikes_def postprocess_sorting_def
  extract_features_def cluster_spikes_def plot_cluster_features_def
  merge_keywords_def kwargs_get_def truth_test_def

section \<open>Library exceptions are not caught\<close>




















section \<open>The selector checks\<close>

lemma load_data_by_reader:
  "load_data file_path io_type =
     py_bind (ext (Fn ''NeuralynxIO'' [] [(''dirname'', file_path)])) (\<lambda>neuralynx.
     py_bind (ext (Fn ''BlackrockIO'' [] [(''filename'', file_path)])) (\<lambda>blackrock.
     py_bind (ext (Fn ''NixIO'' [] [(''filename'', file_path)])) (\<lambda>nix.
     (if io_type = ''NeuralynxIO'' then read_recording neuralynx
      else if io_type = ''BlackrockIO'' then read_recording blackrock
      else if io_type = ''NixIO'' then read_recording nix
      else py_raise (ValueError (''Unsupported IO type: '' @ io_type))))))"
  by (cases "io_type = ''NeuralynxIO''"; cases "io_type = ''BlackrockIO''";
      cases "io_type = ''NixIO''"; simp add: load_data_def read_recording_def)

lemma read_recording_starts:
  "prefix (h @ [Method reader ''read_block'' [] []]) (snd (run_py (read_recording reader) lib h))"
  unfolding read_recording_def
  by (simp add: run_bind_ext run_ext split: sum.split)

text \<open>
  C5. Every call of \<open>load_data\<close> first invokes the three reader constructors on the
  given path, \<open>NeuralynxIO\<close>, \<open>BlackrockIO\<close> and \<open>NixIO\<close> in this order, whatever
  \<open>io_type\<close> is. If one of them raises, \<open>load_data\<close> ends there with that exception,
  also for an unsupported \<open>io_type\<close>. Only when all three have returned is the selector
  looked at: an unsupported \<open>io_type\<close> then raises the \<open>Unsupported IO type\<close>
  \<open>ValueError\<close> after exactly these three calls, and a supported one goes on to
  \<open>read_block\<close> on the reader it names, the two other readers having been built as well.
\<close>

theorem load_data_builds_every_reader_first:
  "(let c1 = Fn ''NeuralynxIO'' [] [(''dirname'', file_path)];
        c2 = Fn ''BlackrockIO'' [] [(''filename'', file_path)];
        c3 = Fn ''NixIO'' [] [(''filename'', file_path)];
        outcome = run_py (load_data file_path io_type) lib h
    in case lib h c1 of
         Inl e \<Rightarrow> outcome = (Inl e, h @ [c1])
       | Inr neuralynx \<Rightarrow>
          (case lib (h @ [c1]) c2 of
             Inl e \<Rightarrow> outcome = (Inl e, h @ [c1, c2])
           | Inr blackrock \<Rightarrow>
              (case lib (h @ [c1, c2]) c3 of
                 Inl e \<Rightarrow> outcome = (Inl e, h @ [c1, c2, c3])
               | Inr nix \<Rightarrow>
                  (if io_type = ''NeuralynxIO'' then
                     prefix (h @ [c1, c2, c3, Method neuralynx ''read_block'' [] []])
                       (snd outcome)
                   else if io_type = ''BlackrockIO'' then
                     prefix (h @ [c1, c2, c3, Method blackrock ''read_block'' [] []])
                       (snd outcome)
                   else if io_type = ''NixIO'' then
                     prefix (h @ [c1, c2, c3, Method nix ''read_block'' [] []])
                       (snd outcome)
                   else
                     outcome = (Inl (ValueError (''Unsupported IO type: '' @ io_type)),
                                h @ [c1, c2, c3])))))"
  using read_recording_starts
    [of "h @ [Fn ''NeuralynxIO'' [] [(''dirname'', file_path)],
              Fn ''BlackrockIO'' [] [(''filename'', file_path)],
              Fn ''NixIO'' [] [(''filename'', file_path)]]" _ lib]
  by (simp add: load_data_by_reader run_bind_ext run_raise Let_def split: sum.split)

text \<open>
  C1. An unsupported selector is to raise a \<open>ValueError\<close> that names it.
  \<open>cluster_spikes\<close> does so before it calls anything. \<open>load_data\<close> does not: with
  the unsupported \<open>io_type\<close> \<open>SpikeGLXIO\<close> and a path on which the \<open>BlackrockIO\<close>
  constructor raises (a Neuralynx directory is not a Blackrock file set), the call ends
  with the constructor's exception after two calls and the selector is never checked.
\<close>

theorem load_data_unsupported_io_type_masked:
  "run_py (load_data (PStr ''data/sample_data'') ''SpikeGLXIO'')
     (lib_raising ''BlackrockIO'' (PyExn ''OSError'' ''no Blackrock files at this path'')) [] =
   (Inl (PyExn ''OSError'' ''no Blackrock files at this path''),
    [Fn ''NeuralynxIO'' [] [(''dirname'', PStr ''data/sample_data'')],
     Fn ''BlackrockIO'' [] [(''filename'', PStr ''data/sample_data'')]])"
  by (simp add: load_data_def run_simps lib_raising_def lib_fresh_def)

subsection \<open>Where an exception can come from\<close>





















section \<open>Parameters are passed through\<close>

text \<open>
  C6. \<open>preprocess_data\<close> is to pass the given \<open>notch_freq\<close>, when one is supplied,
  as it is to the notch filter; its docstring says that the filter is skipped if
  \<open>notch_freq\<close> is \<open>None\<close>. The code tests the truth value of \<open>notch_freq\<close>
  instead: with the supplied frequency \<open>0\<close> the run consists of the band-pass filter
  and the common reference only, and the value is not passed to the notch filter, which
  is not called.
\<close>

theorem zero_notch_freq_is_not_forwarded:
  "run_py (preprocess_data (PObj 8) (PInt 300) (PInt 3000) (PInt 0) (PStr ''median''))
     lib_fresh [] =
   (Inr (PObj 1),
    [Fn ''sp.bandpass_filter'' [PObj 8] [(''freq_min'', PInt 300), (''freq_max'', PInt 3000)],
     Fn ''sp.common_reference'' [PObj 0] [(''reference'', PStr ''median'')]])"
  by (simp add: preprocess_data_def truth_test_def run_simps lib_fresh_def)

lemma keyword_items_map:
  "keyword_items kvs = Some kws \<Longrightarrow> map fst kvs = map (\<lambda>kv. PStr (fst kv)) kws"
  by (induction kvs arbitrary: kws rule: keyword_items.induct) auto

lemma keyword_items_keys:
  assumes "keyword_items kvs = Some kws"
  shows "(PStr k \<in> fst ` set kvs) = (k \<in> fst ` set kws)"
proof -
  have "fst ` set kvs = set (map fst kvs)"
    by simp
  also have "\<dots> = (\<lambda>kv. PStr (fst kv)) ` set kws"
    by (simp only: keyword_items_map[OF assms] set_map)
  finally show ?thesis
    by auto
qed

lemma merge_keywords_ok:
  "keyword_items kvs = Some kws \<Longrightarrow> ''output_folder'' \<notin> fst ` set kws \<Longrightarrow>
   merge_keywords [(''output_folder'', v)] (PDict kvs) = py_return ((''output_folder'', v) # kws)"
  using keyword_items_keys[of kvs kws "''output_folder''"]
  by (simp add: merge_keywords_def)

lemma sort_spikes_supplied:
  "kvs \<noteq> [] \<Longrightarrow> keyword_items kvs = Some kws \<Longrightarrow> ''output_folder'' \<notin> fst ` set kws \<Longrightarrow>
   run_py (sort_spikes recording sorter_name (PDict kvs)) lib h =
     (lib h (Fn ''ss.run_sorter'' [sorter_name, recording]
                ((''output_folder'', PStr ''sorting_output'') # kws)),
      h @ [Fn ''ss.run_sorter'' [sorter_name, recording]
              ((''output_folder'', PStr ''sorting_output'') # kws)])"
  by (simp add: sort_spikes_def truth_test_def run_simps merge_keywords_ok)

lemma sort_spikes_falsy:
  "truthy custom_params = Some False \<Longrightarrow>
   (case lib h (Fn ''ss.get_default_params'' [sorter_name] []) of
      Inl e \<Rightarrow>
        run_py (sort_spikes recording sorter_name custom_params) lib h =
          (Inl e, h @ [Fn ''ss.get_default_params'' [sorter_name] []])
    | Inr defaults \<Rightarrow>
        (\<forall>dkvs dkws.
           defaults = PDict dkvs \<and> keyword_items dkvs = Some dkws
             \<and> ''output_folder'' \<notin> fst ` set dkws \<longrightarrow>
           run_py (sort_spikes recording sorter_name custom_params) lib h =
             (lib (h @ [Fn ''ss.get_default_params'' [sorter_name] []])
                  (Fn ''ss.run_sorter'' [sorter_name, recording]
                      ((''output_folder'', PStr ''sorting_output'') # dkws)),
              h @ [Fn ''ss.get_default_params'' [sorter_name] [],
                   Fn ''ss.run_sorter'' [sorter_name, recording]
                      ((''output_folder'', PStr ''sorting_output'') # dkws)])))"
  by (auto simp: sort_spikes_def truth_test_def run_simps merge_keywords_ok
      split: sum.split)

text \<open>
  C7, as the code has it. For every \<open>sorter_name\<close> and every non-empty
  \<open>custom_params\<close> dictionary whose keys are strings other than \<open>output_folder\<close>,
  \<open>sort_spikes\<close> makes one call: \<open>ss.run_sorter\<close> with that \<open>sorter_name\<close>, the given
  recording, \<open>output_folder='sorting_output'\<close> and the entries of \<open>custom_params\<close> as
  keyword parameters, and returns what it returns. When \<open>custom_params\<close> is a false
  built-in value (\<open>None\<close>, or an empty dictionary), \<open>sort_spikes\<close> first asks
  \<open>ss.get_default_params\<close> for the sorter's defaults and runs the sorter in the same way
  with their entries.
\<close>

theorem sort_spikes_forwards_parameters:
  "(custom_params = PDict kvs \<and> kvs \<noteq> [] \<and> keyword_items kvs = Some kws
      \<and> ''output_folder'' \<notin> fst ` set kws \<longrightarrow>
    run_py (sort_spikes recording sorter_name custom_params) lib h =
      (lib h (Fn ''ss.run_sorter'' [sorter_name, recording]
                 ((''output_folder'', PStr ''sorting_output'') # kws)),
       h @ [Fn ''ss.run_sorter'' [sorter_name, recording]
               ((''output_folder'', PStr ''sorting_output'') # kws)]))
   \<and> (truthy custom_params = Some False \<longrightarrow>
      (case lib h (Fn ''ss.get_default_params'' [sorter_name] []) of
         Inl e \<Rightarrow>
           run_py (sort_spikes recording sorter_name custom_params) lib h =
             (Inl e, h @ [Fn ''ss.get_default_params'' [sorter_name] []])
       | Inr defaults \<Rightarrow>
           (\<forall>dkvs dkws.
              defaults = PDict dkvs \<and> keyword_items dkvs = Some dkws
                \<and> ''output_folder'' \<notin> fst ` set dkws \<longrightarrow>
              run_py (sort_spikes recording sorter_name custom_params) lib h =
                (lib (h @ [Fn ''ss.get_default_params'' [sorter_name] []])
                     (Fn ''ss.run_sorter'' [sorter_name, recording]
                         ((''output_folder'', PStr ''sorting_output'') # dkws)),
                 h @ [Fn ''ss.get_default_params'' [sorter_name] [],
                      Fn ''ss.run_sorter'' [sorter_name, recording]
                         ((''output_folder'', PStr ''sorting_output'') # dkws)]))))"
proof (intro conjI impI)
  assume "custom_params = PDict kvs \<and> kvs \<noteq> [] \<and> keyword_items kvs = Some kws
      \<and> ''output_folder'' \<notin> fst ` set kws"
  then show "run_py (sort_spikes recording sorter_name custom_params) lib h =
      (lib h (Fn ''ss.run_sorter'' [sorter_name, recording]
                 ((''output_folder'', PStr ''sorting_output'') # kws)),
       h @ [Fn ''ss.run_sorter'' [sorter_name, recording]
               ((''output_folder'', PStr ''sorting_output'') # kws)])"
    by (simp add: sort_spikes_supplied)
next
  assume "truthy custom_params = Some False"
  then show "case lib h (Fn ''ss.get_default_params'' [sorter_name] []) of
         Inl e \<Rightarrow>
           run_py (sort_spikes recording sorter_name custom_params) lib h =
             (Inl e, h @ [Fn ''ss.get_default_params'' [sorter_name] []])
       | Inr defaults \<Rightarrow>
           (\<forall>dkvs dkws.
              defaults = PDict dkvs \<and> keyword_items dkvs = Some dkws
                \<and> ''output_folder'' \<notin> fst ` set dkws \<longrightarrow>
              run_py (sort_spikes recording sorter_name custom_params) lib h =
                (lib (h @ [Fn ''ss.get_default_params'' [sorter_name] []])
                     (Fn ''ss.run_sorter'' [sorter_name, recording]
                         ((''output_folder'', PStr ''sorting_output'') # dkws)),
                 h @ [Fn ''ss.get_default_params'' [sorter_name] [],
                      Fn ''ss.run_sorter'' [sorter_name, recording]
                         ((''output_folder'', PStr ''sorting_output'') # dkws)]))"
    by (rule sort_spikes_falsy)
qed

text \<open>
  C7, witness: a one-entry \<open>custom_params\<close> is passed on, and \<open>None\<close> makes the
  sorter run with the defaults of the backend.
\<close>

theorem sort_spikes_forwards_parameters_witness:
  "run_py (sort_spikes (PObj 10) (PStr ''kilosort2'')
             (PDict [(PStr ''detect_threshold'', PInt 5)])) lib_fresh [] =
     (Inr (PObj 0),
      [Fn ''ss.run_sorter'' [PStr ''kilosort2'', PObj 10]
          [(''output_folder'', PStr ''sorting_output''), (''detect_threshold'', PInt 5)]])
   \<and> run_py (sort_spikes (PObj 10) (PStr ''kilosort2'') PNone) lib_fresh [] =
     (Inr (PObj 1),
      [Fn ''ss.get_default_params'' [PStr ''kilosort2''] [],
       Fn ''ss.run_sorter'' [PStr ''kilosort2'', PObj 10]
          [(''output_folder'', PStr ''sorting_output''), (''detect_threshold'', PInt 6)]])"
proof -
  have supplied: "run_py (sort_spikes (PObj 10) (PStr ''kilosort2'')
             (PDict [(PStr ''detect_threshold'', PInt 5)])) lib_fresh [] =
     (Inr (PObj 0),
      [Fn ''ss.run_sorter'' [PStr ''kilosort2'', PObj 10]
          [(''output_folder'', PStr ''sorting_output''), (''detect_threshold'', PInt 5)]])"
    using sort_spikes_forwards_parameters
      [where custom_params = "PDict [(PStr ''detect_threshold'', PInt 5)]"
         and kvs = "[(PStr ''detect_threshold'', PInt 5)]"
         and kws = "[(''detect_threshold'', PInt 5)]"
         and recording = "PObj 10" and sorter_name = "PStr ''kilosort2''"
         and lib = lib_fresh and h = "[]", THEN conjunct1]
    by (simp add: lib_fresh_def)
  have defaults: "run_py (sort_spikes (PObj 10) (PStr ''kilosort2'') PNone) lib_fresh [] =
     (Inr (PObj 1),
      [Fn ''ss.get_default_params'' [PStr ''kilosort2''] [],
       Fn ''ss.run_sorter'' [PStr ''kilosort2'', PObj 10]
          [(''output_folder'', PStr ''sorting_output''), (''detect_threshold'', PInt 6)]])"
    using sort_spikes_forwards_parameters
      [where custom_params = PNone
         and kvs = "[(PStr ''detect_threshold'', PInt 5)]"
         and kws = "[(''detect_threshold'', PInt 5)]"
         and recording = "PObj 10" and sorter_name = "PStr ''kilosort2''"
         and lib = lib_fresh and h = "[]", THEN conjunct2]
    by (simp add: lib_fresh_def)
  show ?thesis
    by (intro conjI supplied defaults)
qed

text \<open>
  C7, counterexample: the empty dictionary is a supplied \<open>custom_params\<close>, but the
  sorter is run with the entries of the backend's defaults, not with the (no) entries of
  \<open>custom_params\<close>; and a \<open>custom_params\<close> that has the key \<open>output_folder\<close> makes
  the call fail in the interpreter, so that \<open>ss.run_sorter\<close> is not invoked at all.
\<close>

theorem empty_and_clashing_custom_params:
  "run_py (sort_spikes (PObj 10) (PStr ''kilosort2'') (PDict [])) lib_fresh [] =
     (Inr (PObj 1),
      [Fn ''ss.get_default_params'' [PStr ''kilosort2''] [],
       Fn ''ss.run_sorter'' [PStr ''kilosort2'', PObj 10]
          [(''output_folder'', PStr ''sorting_output''), (''detect_threshold'', PInt 6)]])
   \<and> run_py (sort_spikes (PObj 10) (PStr ''kilosort2'')
               (PDict [(PStr ''output_folder'', PStr ''run_1'')])) lib_fresh [] =
     (Inl (TypeError ''got multiple values for keyword argument output_folder''), [])"
  by (simp add: sort_spikes_def truth_test_def merge_keywords_def run_simps lib_fresh_def)

section \<open>Truthiness decides the fallbacks\<close>

text \<open>
  C10. An empty \<open>custom_params\<close> dictionary makes \<open>sort_spikes\<close> behave exactly as
  \<open>None\<close> does, because the choice is made by the truth value of \<open>custom_params\<close>:
  it asks the backend for its default parameters first and, when the backend answers with
  a dictionary of parameters, runs the sorter with \<open>output_folder\<close> and every entry of
  these defaults as keyword parameters, not with an empty parameter set. In the same way
  \<open>preprocess_data\<close> with \<open>notch_freq = 0\<close> (the integer, or the float \<open>0.0\<close>)
  behaves exactly as with \<open>None\<close>: the band-pass result goes straight to the common
  reference and the notch filter is never called.
\<close>

theorem falsy_arguments_fall_back:
  "sort_spikes recording sorter_name (PDict []) = sort_spikes recording sorter_name PNone
   \<and> (case lib h (Fn ''ss.get_default_params'' [sorter_name] []) of
        Inl e \<Rightarrow>
          run_py (sort_spikes recording sorter_name (PDict [])) lib h =
            (Inl e, h @ [Fn ''ss.get_default_params'' [sorter_name] []])
      | Inr defaults \<Rightarrow>
          (\<forall>dkvs dkws.
             defaults = PDict dkvs \<and> keyword_items dkvs = Some dkws
               \<and> ''output_folder'' \<notin> fst ` set dkws \<longrightarrow>
             run_py (sort_spikes recording sorter_name (PDict [])) lib h =
               (lib (h @ [Fn ''ss.get_default_params'' [sorter_name] []])
                    (Fn ''ss.run_sorter'' [sorter_name, recording]
                        ((''output_folder'', PStr ''sorting_output'') # dkws)),
                h @ [Fn ''ss.get_default_params'' [sorter_name] [],
                     Fn ''ss.run_sorter'' [sorter_name, recording]
                        ((''output_folder'', PStr ''sorting_output'') # dkws)])))
   \<and> preprocess_data recording freq_min freq_max (PInt 0) common_ref_type =
       preprocess_data recording freq_min freq_max PNone common_ref_type
   \<and> preprocess_data recording freq_min freq_max (PFloat 0) common_ref_type =
       preprocess_data recording freq_min freq_max PNone common_ref_type
   \<and> run_py (preprocess_data recording freq_min freq_max (PInt 0) common_ref_type) lib h =
     (case lib h (Fn ''sp.bandpass_filter'' [recording]
                     [(''freq_min'', freq_min), (''freq_max'', freq_max)]) of
        Inl e \<Rightarrow> (Inl e, h @ [Fn ''sp.bandpass_filter'' [recording]
                                  [(''freq_min'', freq_min), (''freq_max'', freq_max)]])
      | Inr recording_bp \<Rightarrow>
          (lib (h @ [Fn ''sp.bandpass_filter'' [recording]
                        [(''freq_min'', freq_min), (''freq_max'', freq_max)]])
               (Fn ''sp.common_reference'' [recording_bp] [(''reference'', common_ref_type)]),
           h @ [Fn ''sp.bandpass_filter'' [recording]
                   [(''freq_min'', freq_min), (''freq_max'', freq_max)],
                Fn ''sp.common_reference'' [recording_bp]
                   [(''reference'', common_ref_type)]]))"
proof -
  have same_sort: "sort_spikes recording sorter_name (PDict []) =
      sort_spikes recording sorter_name PNone"
    by (simp add: sort_spikes_def truth_test_def py_bind_return)
  have defaults_used: "case lib h (Fn ''ss.get_default_params'' [sorter_name] []) of
        Inl e \<Rightarrow>
          run_py (sort_spikes recording sorter_name (PDict [])) lib h =
            (Inl e, h @ [Fn ''ss.get_default_params'' [sorter_name] []])
      | Inr defaults \<Rightarrow>
          (\<forall>dkvs dkws.
             defaults = PDict dkvs \<and> keyword_items dkvs = Some dkws
               \<and> ''output_folder'' \<notin> fst ` set dkws \<longrightarrow>
             run_py (sort_spikes recording sorter_name (PDict [])) lib h =
               (lib (h @ [Fn ''ss.get_default_params'' [sorter_name] []])
                    (Fn ''ss.run_sorter'' [sorter_name, recording]
                        ((''output_folder'', PStr ''sorting_output'') # dkws)),
                h @ [Fn ''ss.get_default_params'' [sorter_name] [],
                     Fn ''ss.run_sorter'' [sorter_name, recording]
                        ((''output_folder'', PStr ''sorting_output'') # dkws)]))"
    by (rule sort_spikes_falsy) simp
  have same_int: "preprocess_data recording freq_min freq_max (PInt 0) common_ref_type =
       preprocess_data recording freq_min freq_max PNone common_ref_type"
    and same_float: "preprocess_data recording freq_min freq_max (PFloat 0) common_ref_type =
       preprocess_data recording freq_min freq_max PNone common_ref_type"
    by (simp_all add: preprocess_data_def truth_test_def py_bind_return)
  have skipped: "run_py (preprocess_data recording freq_min freq_max (PInt 0) common_ref_type)
      lib h =
     (case lib h (Fn ''sp.bandpass_filter'' [recording]
                     [(''freq_min'', freq_min), (''freq_max'', freq_max)]) of
        Inl e \<Rightarrow> (Inl e, h @ [Fn ''sp.bandpass_filter'' [recording]
                                  [(''freq_min'', freq_min), (''freq_max'', freq_max)]])
      | Inr recording_bp \<Rightarrow>
          (lib (h @ [Fn ''sp.bandpass_filter'' [recording]
                        [(''freq_min'', freq_min), (''freq_max'', freq_max)]])
               (Fn ''sp.common_reference'' [recording_bp] [(''reference'', common_ref_type)]),
           h @ [Fn ''sp.bandpass_filter'' [recording]
                   [(''freq_min'', freq_min), (''freq_max'', freq_max)],
                Fn ''sp.common_reference'' [recording_bp]
                   [(''reference'', common_ref_type)]]))"
    by (simp add: preprocess_data_def truth_test_def run_simps split: sum.split)
  show ?thesis
    by (intro conjI same_sort defaults_used same_int same_float skipped)
qed

text \<open>
  C10, witness: the backend's one default parameter, \<open>detect_threshold\<close>, reaches
  \<open>ss.run_sorter\<close> although \<open>custom_params\<close> is the empty dictionary.
\<close>

theorem falsy_arguments_fall_back_witness:
  "run_py (sort_spikes (PObj 3) (PStr ''mountainsort4'') (PDict [])) lib_fresh [] =
     (Inr (PObj 1),
      [Fn ''ss.get_default_params'' [PStr ''mountainsort4''] [],
       Fn ''ss.run_sorter'' [PStr ''mountainsort4'', PObj 3]
          [(''output_folder'', PStr ''sorting_output''), (''detect_threshold'', PInt 6)]])"
  using falsy_arguments_fall_back
    [where recording = "PObj 3" and sorter_name = "PStr ''mountainsort4''"
       and lib = lib_fresh and h = "[]" and freq_min = "PInt 300" and freq_max = "PInt 3000"
       and common_ref_type = "PStr ''median''", THEN conjunct2, THEN conjunct1]
  by (simp add: lib_fresh_def)

section \<open>Returned values\<close>

lemma returns_ext: "returns_library_result (ext c)"
  by (simp add: returns_library_result_def answered_last_def run_ext split: sum.split)

lemma returns_raise: "returns_library_result (py_raise e)"
  by (simp add: returns_library_result_def answered_last_def run_raise)

lemma returns_bind_ext:
  assumes "\<And>x. returns_library_result (f x)"
  shows "returns_library_result (py_bind (ext c) f)"
  unfolding returns_library_result_def
proof (intro allI)
  fix lib h
  show "answered_last lib h (run_py (py_bind (ext c) f) lib h)"
  proof (cases "lib h c")
    case (Inl e)
    then show ?thesis
      by (simp add: run_bind_ext answered_last_def)
  next
    case (Inr x)
    from assms[of x] have "answered_last lib (h @ [c]) (run_py (f x) lib (h @ [c]))"
      unfolding returns_library_result_def by simp
    with Inr show ?thesis
      by (auto simp: run_bind_ext answered_last_def split: prod.splits sum.splits)
  qed
qed

lemma returns_bind_merge_keywords:
  "(\<And>keywords. returns_library_result (f keywords)) \<Longrightarrow>
   returns_library_result (py_bind (merge_keywords explicit d) f)"
  by (simp add: merge_keywords_def py_bind_raise py_bind_return returns_raise
      split: pyval.split option.split prod.split)

lemmas returns_intros = returns_bind_ext returns_ext returns_raise

lemma returns_bind_truth_test:
  "(\<And>b. returns_library_result (f b)) \<Longrightarrow>
   returns_library_result (py_bind (truth_test v) f)"
  unfolding truth_test_def
  by (cases "truthy v")
     (auto simp: py_bind_assoc py_bind_return py_bind_raise returns_raise
        intro!: returns_bind_ext split: pyval.split)

lemma returns_load_data: "returns_library_result (load_data file_path io_type)"
  unfolding load_data_def
  by (intro returns_intros) (simp add: returns_intros split: option.split)

lemma returns_preprocess_data:
  "returns_library_result
     (preprocess_data recording freq_min freq_max notch_freq common_ref_type)"
  unfolding preprocess_data_def
  by (intro returns_bind_ext returns_bind_truth_test)
     (simp add: returns_intros py_bind_return)

lemma returns_sort_spikes:
  "returns_library_result (sort_spikes recording sorter_name custom_params)"
  unfolding sort_spikes_def
  by (intro returns_bind_truth_test)
     (simp add: py_bind_return returns_intros returns_bind_merge_keywords)

lemma returns_extract_features:
  "returns_library_result (extract_features waveform_extractor method n_components)"
  unfolding extract_features_def
  by (intro returns_intros) (simp add: returns_intros)

lemma returns_cluster_spikes: "returns_library_result (cluster_spikes features method kwargs)"
  unfolding cluster_spikes_def
  by (simp add: returns_intros)

lemma postprocess_sorting_run:
  "run_py (postprocess_sorting sorting recording) lib h =
     (let create = Fn ''spost.WaveformExtractor.create'' [recording, sorting]
                      [(''folder'', PStr ''waveforms''),
                       (''remove_existing_folder'', PBool True)]
      in case lib h create of
           Inl e \<Rightarrow> (Inl e, h @ [create])
         | Inr waveform_extractor \<Rightarrow>
             (let configure = Method waveform_extractor ''set_params'' []
                                 [(''ms_before'', PFloat 0x3FF8000000000000),
                                  (''ms_after'', PFloat 0x4004000000000000)];
                  extract = Method waveform_extractor ''run'' [] []
              in case lib (h @ [create]) configure of
                   Inl e \<Rightarrow> (Inl e, h @ [create, configure])
                 | Inr configured \<Rightarrow>
                     (case lib (h @ [create, configure]) extract of
                        Inl e \<Rightarrow> (Inl e, h @ [create, configure, extract])
                      | Inr extracted \<Rightarrow>
                          (Inr waveform_extractor, h @ [create, configure, extract]))))"
  by (simp add: postprocess_sorting_def run_simps Let_def split: sum.split)

lemma plot_cluster_features_returns_None:
  "case run_py (plot_cluster_features features labels) lib h of
      (Inr v, h') \<Rightarrow> v = PNone
    | (Inl e, h') \<Rightarrow> True"
  by (simp add: plot_cluster_features_def run_simps split: sum.split)

lemma extract_features_other_methods:
  "method \<noteq> ''pca'' \<Longrightarrow>
   mean_and_std_features lib h waveform_extractor
     (run_py (extract_features waveform_extractor method n_components) lib h)"
  by (simp add: mean_and_std_features_def extract_features_def run_simps nth_append
      butlast_append split: sum.split)

lemma plot_fresh_run:
  "run_py (plot_cluster_features (PObj 21) (PObj 23)) lib_fresh [] =
     (Inr PNone,
      [GetItem (PObj 21) (PTuple [PSlice PNone PNone PNone, PInt 0]),
       GetItem (PObj 21) (PTuple [PSlice PNone PNone PNone, PInt 1]),
       Fn ''px.scatter'' [] [(''x'', PObj 0), (''y'', PObj 1), (''color'', PObj 23)],
       Method (PObj 2) ''update_layout'' []
         [(''title'', PStr ''Spike Clustering''), (''xaxis_title'', PStr ''Feature 1''),
          (''yaxis_title'', PStr ''Feature 2'')],
       Method (PObj 2) ''show'' [] []])"
  by (simp add: plot_cluster_features_def run_simps lib_fresh_def)

text \<open>
  C8, as the code has it. The repository defines no data entities of its own, and what
  its functions return is this. \<open>load_data\<close>, \<open>preprocess_data\<close>, \<open>sort_spikes\<close>,
  \<open>extract_features\<close> and \<open>cluster_spikes\<close> return, unmodified, what the library
  answered to the last call they made. For every method other than \<open>pca\<close> that last
  call of \<open>extract_features\<close> is the function's own assembly of a feature matrix:
  \<open>np.column_stack\<close> applied to the pair it forms of the mean of the absolute waveforms
  and the standard deviation of the waveforms, which it has asked NumPy for before.
  \<open>postprocess_sorting\<close> returns the object that \<open>spost.WaveformExtractor.create\<close>
  answered, after it has called \<open>set_params\<close> and \<open>run\<close> on this object.
  \<open>plot_cluster_features\<close> has no return statement: it returns \<open>None\<close>, whatever the
  library answered.
\<close>

theorem what_each_function_returns:
  "returns_library_result (load_data file_path io_type)
   \<and> returns_library_result
       (preprocess_data recording freq_min freq_max notch_freq common_ref_type)
   \<and> returns_library_result (sort_spikes recording sorter_name custom_params)
   \<and> returns_library_result (extract_features waveform_extractor feature_method n_components)
   \<and> returns_library_result (cluster_spikes features cluster_method kwargs)
   \<and> (feature_method \<noteq> ''pca'' \<longrightarrow>
        mean_and_std_features lib h waveform_extractor
          (run_py (extract_features waveform_extractor feature_method n_components) lib h))
   \<and> run_py (postprocess_sorting sorting recording) lib h =
       (let create = Fn ''spost.WaveformExtractor.create'' [recording, sorting]
                        [(''folder'', PStr ''waveforms''),
                         (''remove_existing_folder'', PBool True)]
        in case lib h create of
             Inl e \<Rightarrow> (Inl e, h @ [create])
           | Inr created \<Rightarrow>
               (let configure = Method created ''set_params'' []
                                   [(''ms_before'', PFloat 0x3FF8000000000000),
                                    (''ms_after'', PFloat 0x4004000000000000)];
                    extract = Method created ''run'' [] []
                in case lib (h @ [create]) configure of
                     Inl e \<Rightarrow> (Inl e, h @ [create, configure])
                   | Inr configured \<Rightarrow>
                       (case lib (h @ [create, configure]) extract of
                          Inl e \<Rightarrow> (Inl e, h @ [create, configure, extract])
                        | Inr extracted \<Rightarrow>
                            (Inr created, h @ [create, configure, extract]))))
   \<and> (case run_py (plot_cluster_features features labels) lib h of
        (Inr v, h') \<Rightarrow> v = PNone
      | (Inl e, h') \<Rightarrow> True)"
  by (intro conjI returns_load_data returns_preprocess_data returns_sort_spikes
      returns_extract_features returns_cluster_spikes postprocess_sorting_run
      plot_cluster_features_returns_None)
     (rule impI, erule extract_features_other_methods)

text \<open>
  C8, witness: for the method \<open>waveform\<close> the feature matrix is assembled as stated,
  against a library that never raises.
\<close>

theorem what_each_function_returns_witness:
  "''waveform'' \<noteq> ''pca''
   \<and> mean_and_std_features lib_fresh [] (PObj 13)
       (run_py (extract_features (PObj 13) ''waveform'' (PInt 3)) lib_fresh [])
   \<and> run_py (extract_features (PObj 13) ''waveform'' (PInt 3)) lib_fresh [] =
       (Inr (PObj 4),
        [Method (PObj 13) ''get_waveforms'' [] [],
         Fn ''np.abs'' [PObj 0] [],
         Fn ''np.mean'' [PObj 1] [(''axis'', PTuple [PInt 1, PInt 2])],
         Fn ''np.std'' [PObj 0] [(''axis'', PTuple [PInt 1, PInt 2])],
         Fn ''np.column_stack'' [PTuple [PObj 2, PObj 3]] []])"
proof -
  have other: "''waveform'' \<noteq> ''pca''"
    by simp
  then have assembled: "mean_and_std_features lib_fresh [] (PObj 13)
       (run_py (extract_features (PObj 13) ''waveform'' (PInt 3)) lib_fresh [])"
    by (rule what_each_function_returns
        [THEN conjunct2, THEN conjunct2, THEN conjunct2, THEN conjunct2, THEN conjunct2,
         THEN conjunct1, THEN mp])
  have outcome: "run_py (extract_features (PObj 13) ''waveform'' (PInt 3)) lib_fresh [] =
       (Inr (PObj 4),
        [Method (PObj 13) ''get_waveforms'' [] [],
         Fn ''np.abs'' [PObj 0] [],
         Fn ''np.mean'' [PObj 1] [(''axis'', PTuple [PInt 1, PInt 2])],
         Fn ''np.std'' [PObj 0] [(''axis'', PTuple [PInt 1, PInt 2])],
         Fn ''np.column_stack'' [PTuple [PObj 2, PObj 3]] []])"
    by (simp add: extract_features_def run_simps lib_fresh_def)
  show ?thesis
    by (intro conjI other assembled outcome)
qed

text \<open>
  C8, counterexample to every returned value being the unmodified result of a library
  call, against a library that never raises. \<open>plot_cluster_features\<close> returns
  \<open>None\<close>, which is the answer to none of its five calls. \<open>postprocess_sorting\<close>
  returns the handle 0 that \<open>create\<close> answered only after \<open>set_params\<close> and \<open>run\<close>
  were called on that handle. \<open>extract_features\<close> with the method \<open>waveform\<close>
  returns a matrix stacked from the pair of the handles 2 and 3, the two statistics it
  asked for itself.
\<close>

theorem returned_values_counterexample:
  "run_py (plot_cluster_features (PObj 21) (PObj 23)) lib_fresh [] =
     (Inr PNone,
      [GetItem (PObj 21) (PTuple [PSlice PNone PNone PNone, PInt 0]),
       GetItem (PObj 21) (PTuple [PSlice PNone PNone PNone, PInt 1]),
       Fn ''px.scatter'' [] [(''x'', PObj 0), (''y'', PObj 1), (''color'', PObj 23)],
       Method (PObj 2) ''update_layout'' []
         [(''title'', PStr ''Spike Clustering''), (''xaxis_title'', PStr ''Feature 1''),
          (''yaxis_title'', PStr ''Feature 2'')],
       Method (PObj 2) ''show'' [] []])
   \<and> answers lib_fresh []
        (snd (run_py (plot_cluster_features (PObj 21) (PObj 23)) lib_fresh [])) =
      [Inr (PObj 0), Inr (PObj 1), Inr (PObj 2), Inr (PObj 3), Inr (PObj 4)]
   \<and> \<not> answered_last lib_fresh []
        (run_py (plot_cluster_features (PObj 21) (PObj 23)) lib_fresh [])
   \<and> run_py (postprocess_sorting (PObj 12) (PObj 10)) lib_fresh [] =
     (Inr (PObj 0),
      [Fn ''spost.WaveformExtractor.create'' [PObj 10, PObj 12]
         [(''folder'', PStr ''waveforms''), (''remove_existing_folder'', PBool True)],
       Method (PObj 0) ''set_params'' []
         [(''ms_before'', PFloat 0x3FF8000000000000), (''ms_after'', PFloat 0x4004000000000000)],
       Method (PObj 0) ''run'' [] []])
   \<and> run_py (extract_features (PObj 13) ''waveform'' (PInt 3)) lib_fresh [] =
     (Inr (PObj 4),
      [Method (PObj 13) ''get_waveforms'' [] [],
       Fn ''np.abs'' [PObj 0] [],
       Fn ''np.mean'' [PObj 1] [(''axis'', PTuple [PInt 1, PInt 2])],
       Fn ''np.std'' [PObj 0] [(''axis'', PTuple [PInt 1, PInt 2])],
       Fn ''np.column_stack'' [PTuple [PObj 2, PObj 3]] []])"
  by (simp add: plot_fresh_run answered_last_def postprocess_sorting_def
      extract_features_def run_simps lib_fresh_def)

text \<open>
  C9. For every \<open>method\<close> other than \<open>pca\<close>, \<open>waveform\<close> and any unrecognised string
  alike, \<open>extract_features\<close> has no check that could reject it: it raises only when a
  library call raises, and otherwise returns the two-column matrix that
  \<open>np.column_stack\<close> builds from the mean over axes 1 and 2 of the absolute waveforms
  (first column) and the standard deviation over axes 1 and 2 of the waveforms (second
  column).
\<close>

theorem extract_features_without_pca:
  "method \<noteq> ''pca'' \<longrightarrow>
     mean_and_std_features lib h waveform_extractor
       (run_py (extract_features waveform_extractor method n_components) lib h)"
  by (rule impI, erule extract_features_other_methods)

text \<open>C9, witness: the unrecognised method \<open>isomap\<close> against a library that never raises.\<close>

theorem extract_features_without_pca_witness:
  "''isomap'' \<noteq> ''pca''
   \<and> run_py (extract_features (PObj 13) ''isomap'' (PInt 3)) lib_fresh [] =
       (Inr (PObj 4),
        [Method (PObj 13) ''get_waveforms'' [] [],
         Fn ''np.abs'' [PObj 0] [],
         Fn ''np.mean'' [PObj 1] [(''axis'', PTuple [PInt 1, PInt 2])],
         Fn ''np.std'' [PObj 0] [(''axis'', PTuple [PInt 1, PInt 2])],
         Fn ''np.column_stack'' [PTuple [PObj 2, PObj 3]] []])
   \<and> mean_and_std_features lib_fresh [] (PObj 13)
       (run_py (extract_features (PObj 13) ''isomap'' (PInt 3)) lib_fresh [])"
proof -
  have other: "''isomap'' \<noteq> ''pca''"
    by simp
  have outcome: "run_py (extract_features (PObj 13) ''isomap'' (PInt 3)) lib_fresh [] =
       (Inr (PObj 4),
        [Method (PObj 13) ''get_waveforms'' [] [],
         Fn ''np.abs'' [PObj 0] [],
         Fn ''np.mean'' [PObj 1] [(''axis'', PTuple [PInt 1, PInt 2])],
         Fn ''np.std'' [PObj 0] [(''axis'', PTuple [PInt 1, PInt 2])],
         Fn ''np.column_stack'' [PTuple [PObj 2, PObj 3]] []])"
    by (simp add: extract_features_def run_simps lib_fresh_def)
  from other have "mean_and_std_features lib_fresh [] (PObj 13)
       (run_py (extract_features (PObj 13) ''isomap'' (PInt 3)) lib_fresh [])"
    by (rule extract_features_without_pca [THEN mp])
  with other outcome show ?thesis
    by (intro conjI)
qed

section \<open>The order of the stages\<close>

lemma notebook_fresh_run: "run_py notebook lib_fresh [] = (Inr fresh_namespace, fresh_history)"
  by (simp add: notebook_def Let_def function_defs run_simps lib_fresh_def fresh_namespace_def
      fresh_history_def)

lemma spec_pipeline_fresh_run: "run_py spec_pipeline lib_fresh [] = (Inr PNone, spec_fresh_history)"
  by (simp add: spec_pipeline_def function_defs run_simps lib_fresh_def spec_fresh_history_def)

text \<open>
  C2, as the code has it. A run of the notebook that reaches its end is a run of seven
  function calls in this order: \<open>load_data\<close>, \<open>preprocess_data\<close>, \<open>sort_spikes\<close>,
  \<open>postprocess_sorting\<close>, \<open>extract_features\<close>, \<open>cluster_spikes\<close> and (after the labels
  are printed) \<open>plot_cluster_features\<close>. Each value is handed on exactly as it was
  returned: the recording to \<open>preprocess_data\<close>, the preprocessed recording to
  \<open>sort_spikes\<close> and to \<open>postprocess_sorting\<close>, the sorting to
  \<open>postprocess_sorting\<close>, the waveform extractor to \<open>extract_features\<close>, the features
  to \<open>cluster_spikes\<close> and to \<open>plot_cluster_features\<close>, the labels to
  \<open>plot_cluster_features\<close>.
\<close>

theorem notebook_runs_seven_stages:
  "run_py notebook lib h = (Inr ns, h') \<longrightarrow> seven_stage_run lib h ns h'"
proof
  assume run: "run_py notebook lib h = (Inr ns, h')"
  let ?path = "PStr ''data/sample_data''"
  obtain r1 h1 where s1: "run_py (load_data ?path ''NeuralynxIO'') lib h = (r1, h1)"
    by (cases "run_py (load_data ?path ''NeuralynxIO'') lib h")
  with run obtain recording where r1: "r1 = Inr recording"
    by (cases r1) (simp_all add: notebook_def Let_def run_bind)
  obtain r2 h2 where s2: "run_py (preprocess_data recording (PInt 300) (PInt 3000) PNone
      (PStr ''median'')) lib h1 = (r2, h2)"
    by (cases "run_py (preprocess_data recording (PInt 300) (PInt 3000) PNone
      (PStr ''median'')) lib h1")
  with run s1 r1 obtain recording_preprocessed where r2: "r2 = Inr recording_preprocessed"
    by (cases r2) (simp_all add: notebook_def Let_def run_bind)
  obtain r3 h3 where s3: "run_py (sort_spikes recording_preprocessed (PStr ''kilosort2'') PNone)
      lib h2 = (r3, h3)"
    by (cases "run_py (sort_spikes recording_preprocessed (PStr ''kilosort2'') PNone) lib h2")
  with run s1 r1 s2 r2 obtain sorting where r3: "r3 = Inr sorting"
    by (cases r3) (simp_all add: notebook_def Let_def run_bind)
  obtain r4 h4 where s4: "run_py (postprocess_sorting sorting recording_preprocessed) lib h3 =
      (r4, h4)"
    by (cases "run_py (postprocess_sorting sorting recording_preprocessed) lib h3")
  with run s1 r1 s2 r2 s3 r3 obtain waveform_extractor where r4: "r4 = Inr waveform_extractor"
    by (cases r4) (simp_all add: notebook_def Let_def run_bind)
  obtain r5 h5 where s5: "run_py (extract_features waveform_extractor ''pca'' (PInt 3)) lib h4 =
      (r5, h5)"
    by (cases "run_py (extract_features waveform_extractor ''pca'' (PInt 3)) lib h4")
  with run s1 r1 s2 r2 s3 r3 s4 r4 obtain features where r5: "r5 = Inr features"
    by (cases r5) (simp_all add: notebook_def Let_def run_bind)
  obtain r6 h6 where s6: "run_py (cluster_spikes features ''gmm'' []) lib h5 = (r6, h6)"
    by (cases "run_py (cluster_spikes features ''gmm'' []) lib h5")
  with run s1 r1 s2 r2 s3 r3 s4 r4 s5 r5 obtain labels where r6: "r6 = Inr labels"
    by (cases r6) (simp_all add: notebook_def Let_def run_bind)
  let ?print = "Fn ''print'' [PStr ''Cluster Labels:'', labels] []"
  from run s1 r1 s2 r2 s3 r3 s4 r4 s5 r5 s6 r6 obtain printed
    where r7: "lib h6 ?print = Inr printed"
    by (cases "lib h6 ?print") (simp_all add: notebook_def Let_def run_bind run_ext)
  obtain r8 h8 where s8: "run_py (plot_cluster_features features labels) lib (h6 @ [?print]) =
      (r8, h8)"
    by (cases "run_py (plot_cluster_features features labels) lib (h6 @ [?print])")
  with run s1 r1 s2 r2 s3 r3 s4 r4 s5 r5 s6 r6 r7 obtain shown where r8: "r8 = Inr shown"
    by (cases r8) (simp_all add: notebook_def Let_def run_bind run_ext)
  from s8 r8 have shown: "shown = PNone"
    using plot_cluster_features_returns_None
      [of features labels lib "h6 @ [Fn ''print'' [PStr ''Cluster Labels:'', labels] []]"]
    by simp
  from run s1 r1 s2 r2 s3 r3 s4 r4 s5 r5 s6 r6 r7 s8 r8
  have ns: "ns = \<lparr>g_example_file_path = ?path, g_recording = recording,
                  g_recording_preprocessed = recording_preprocessed, g_sorting = sorting,
                  g_waveform_extractor = waveform_extractor, g_features = features,
                  g_labels = labels\<rparr>"
    and h': "h' = h8"
    by (simp_all add: notebook_def Let_def run_bind run_ext run_return)
  show "seven_stage_run lib h ns h'"
    unfolding seven_stage_run_def
    using s1 r1 s2 r2 s3 r3 s4 r4 s5 r5 s6 r6 r7 s8 r8 shown
    by (simp add: ns h')
qed

text \<open>C2, witness: against a library that never raises the notebook reaches its end.\<close>

theorem notebook_runs_seven_stages_witness:
  "run_py notebook lib_fresh [] = (Inr fresh_namespace, fresh_history)
   \<and> seven_stage_run lib_fresh [] fresh_namespace fresh_history"
  using notebook_runs_seven_stages [of lib_fresh "[]" fresh_namespace fresh_history]
    notebook_fresh_run
  by simp

text \<open>
  C2, counterexample: in the run against a library that never raises, the fourteenth
  call is \<open>spost.WaveformExtractor.create\<close>, made by \<open>postprocess_sorting\<close>, a stage
  that is not in the chain of the claim; it receives both what \<open>preprocess_data\<close>
  returned (handle 10) and what \<open>sort_spikes\<close> returned (handle 12).
  \<open>extract_features\<close> then works on the handle 13 that \<open>postprocess_sorting\<close>
  returned, not on the handle 12 that \<open>sort_spikes\<close> returned, as it would in the chain
  of the claim, and the two runs differ.
\<close>

theorem notebook_is_not_the_six_stage_chain:
  "fst (run_py notebook lib_fresh []) = Inr fresh_namespace
   \<and> g_sorting fresh_namespace = PObj 12
   \<and> g_waveform_extractor fresh_namespace = PObj 13
   \<and> snd (run_py notebook lib_fresh []) ! 13 =
       Fn ''spost.WaveformExtractor.create'' [PObj 10, PObj 12]
         [(''folder'', PStr ''waveforms''), (''remove_existing_folder'', PBool True)]
   \<and> snd (run_py notebook lib_fresh []) ! 16 = Method (PObj 13) ''get_waveforms'' [] []
   \<and> snd (run_py spec_pipeline lib_fresh []) ! 13 = Method (PObj 12) ''get_waveforms'' [] []
   \<and> snd (run_py notebook lib_fresh []) \<noteq> snd (run_py spec_pipeline lib_fresh [])"
  by (simp add: notebook_fresh_run spec_pipeline_fresh_run fresh_namespace_def
      fresh_history_def spec_fresh_history_def)

end
